theory Spec2Isabelle
  imports Main "HOL-Library.Word" "HOL-Library.AList"
begin

section \<open>The Go library functions used by package dataaccess\<close>

subsection \<open>strings\<close>

text \<open>
  A Go string is a sequence of bytes, here a \<^typ>\<open>string\<close>. \<^verbatim>\<open>strings.ToLower\<close> maps the
  bytes \<^verbatim>\<open>'A'..'Z'\<close> to \<^verbatim>\<open>'a'..'z'\<close> and leaves every other byte below 0x80 alone; that is
  all it does on ASCII text. For bytes from 0x80 on Go decodes UTF-8 and consults the
  Unicode case tables of its standard library; those tables are not part of the
  repository, and the model leaves such bytes unchanged.
\<close>

definition toLowerByte :: "char \<Rightarrow> char" where
  "toLowerByte c =
     (if (65::nat) \<le> of_char c \<and> of_char c \<le> (90::nat)
      then char_of (of_char c + (32::nat)) else c)"

definition ToLower :: "string \<Rightarrow> string" where
  "ToLower s = map toLowerByte s"

text \<open>
  \<^verbatim>\<open>strings.Replace(s, old, new, n)\<close> for one-byte \<^verbatim>\<open>old\<close> and \<^verbatim>\<open>new\<close> (the only use in the
  package is \<^verbatim>\<open>Replace(s, " ", "-", -1)\<close>): the first \<open>n\<close> occurrences are replaced, all of
  them when \<open>n\<close> is negative.
\<close>

fun Replace :: "string \<Rightarrow> char \<Rightarrow> char \<Rightarrow> int \<Rightarrow> string" where
  "Replace [] old new n = []"
| "Replace (c # cs) old new n =
     (if c = old \<and> n \<noteq> 0 then new # Replace cs old new (n - 1)
      else c # Replace cs old new n)"

text \<open>
  \<^verbatim>\<open>strings.Split(s, sep)\<close> for a one-byte separator: the pieces between the separators,
  one piece more than there are separators (\<^verbatim>\<open>Split("", "@")\<close> is \<^verbatim>\<open>[""]\<close>).
\<close>

fun Split :: "string \<Rightarrow> char \<Rightarrow> string list" where
  "Split [] sep = [[]]"
| "Split (c # cs) sep =
     (if c = sep then [] # Split cs sep
      else (case Split cs sep of
              [] \<Rightarrow> [[c]]
            | piece # pieces \<Rightarrow> (c # piece) # pieces))"

subsection \<open>time\<close>

text \<open>
  A \<^verbatim>\<open>time.Time\<close> as seconds since the Unix epoch and nanoseconds within the second.
  \<^verbatim>\<open>t.Unix()\<close> reads the seconds, \<^verbatim>\<open>time.Unix(s, n)\<close> builds a time; the reading of the
  clock, \<^verbatim>\<open>time.Now()\<close>, is an argument of the operation that takes it.
\<close>

record Time =
  sec :: int
  nsec :: int

definition Unix :: "Time \<Rightarrow> int" where
  "Unix t = sec t"

definition time_Unix :: "int \<Rightarrow> int \<Rightarrow> Time" where
  "time_Unix s n = \<lparr>sec = s, nsec = n\<rparr>"

section \<open>Data model\<close>

text \<open>
  The struct declarations of the package (\<^verbatim>\<open>Skill\<close>, \<^verbatim>\<open>SkillLevel\<close>, \<^verbatim>\<open>Profile\<close>,
  \<^verbatim>\<open>ProfileUpdate\<close>, \<^verbatim>\<open>SkillTag\<close>, \<^verbatim>\<open>Configuration\<close>) and their constructors are not in
  \<^verbatim>\<open>dataaccess.go\<close>. The records below carry the fields that \<^verbatim>\<open>dataaccess.go\<close> reads and
  writes, with the types the specification gives them.
\<close>

text \<open>
  Modelled from the spec: the declaration of \<^verbatim>\<open>Skill\<close> is missing. The specification
  describes \<^verbatim>\<open>Skills\<close> as an "ordered sequence of (skill name, level) pairs", so a skill is a
  struct value of two fields and \<^verbatim>\<open>Skills\<close> is a slice of such values (\<^verbatim>\<open>[]Skill\<close>).
\<close>

record Skill =
  Skill :: string
  Level :: int

text \<open>A snapshot of the skills held until \<open>Date\<close>: an entry of \<^verbatim>\<open>SkillsHistory\<close>.\<close>

record SkillLevel =
  Date :: Time
  Skills :: "Skill list"

text \<open>
  Modelled from the spec: the declaration of \<^verbatim>\<open>Profile\<close> is missing. The fields are those of
  section 3 of the specification; \<open>'a\<close> is the type of the availability, which the package
  only copies. \<^verbatim>\<open>Version\<close> is a Go \<^verbatim>\<open>int\<close>, 64 bits wide, and \<^verbatim>\<open>Version++\<close> wraps.
\<close>

record 'a Profile =
  EmailAddress :: string
  Domain :: string
  Skills :: "Skill list"
  SkillsHistory :: "SkillLevel list"
  Availability :: 'a
  Version :: "64 word"
  LastUpdated :: Time

record 'a ProfileUpdate =
  EmailAddress :: string
  Skills :: "Skill list"
  Availability :: 'a

record SkillTag =
  Name :: string

record Configuration =
  ID :: string
  SessionEncryptionKey :: "8 word list"

text \<open>
  Modelled from the spec: \<^verbatim>\<open>NewProfile\<close> is missing. The specification calls its result "a
  fresh, empty profile" whose version is 0 ("0 for a brand-new profile") and whose history
  is empty; the fields it does not mention hold Go's zero values (\<open>0\<close> of the class
  \<open>zero\<close> for the availability).
\<close>

definition NewProfile :: "('a::zero) Profile" where
  "NewProfile =
     \<lparr>Profile.EmailAddress = [], Domain = [], Profile.Skills = [], SkillsHistory = [],
      Profile.Availability = 0, Version = 0, LastUpdated = time_Unix 0 0\<rparr>"

text \<open>
  Modelled from the spec: \<^verbatim>\<open>NewConfiguration\<close> is missing. The specification describes the
  configuration as a "singleton document, fixed key "configuration"" that contains the
  session-encryption key; a nil key is the empty byte sequence.
\<close>

definition NewConfiguration :: "8 word list \<Rightarrow> Configuration" where
  "NewConfiguration key = \<lparr>ID = ''configuration'', SessionEncryptionKey = key\<rparr>"

text \<open>The zero value \<^verbatim>\<open>Configuration{}\<close>.\<close>

definition zeroConfiguration :: Configuration where
  "zeroConfiguration = \<lparr>ID = [], SessionEncryptionKey = []\<rparr>"

section \<open>The document store\<close>

text \<open>
  The errors of the driver (package \<^verbatim>\<open>mgo\<close>): \<^verbatim>\<open>mgo.ErrNotFound\<close>, the duplicate-key error
  of an insert, and every other failure of a round trip to the server (no connection, a
  timeout, a rejected write) with its message.
\<close>

datatype error = ErrNotFound | ErrDuplicateKey | ErrStorage string

text \<open>
  The state of the database: the collections \<^verbatim>\<open>C("profiles")\<close>, \<^verbatim>\<open>C("skills")\<close> and
  \<^verbatim>\<open>C("configuration")\<close>, each a list of (\<^verbatim>\<open>_id\<close>, document) in the order of insertion,
  and the failures that the coming round trips will meet.
  \<open>faults\<close> holds one entry per round trip still to come (\<open>None\<close>: the round trip goes
  through; \<open>Some msg\<close>: it fails with \<open>ErrStorage msg\<close> and changes nothing); past its end
  every round trip goes through.
\<close>

record 'a Mongo =
  C_profiles :: "(string \<times> 'a Profile) list"
  C_skills :: "(string \<times> SkillTag) list"
  C_configuration :: "(string \<times> Configuration) list"
  faults :: "string option list"

definition roundTrip :: "'a Mongo \<Rightarrow> error option \<times> 'a Mongo" where
  "roundTrip db =
     (case faults db of
        [] \<Rightarrow> (None, db)
      | None # rest \<Rightarrow> (None, db\<lparr>faults := rest\<rparr>)
      | Some msg # rest \<Rightarrow> (Some (ErrStorage msg), db\<lparr>faults := rest\<rparr>))"

text \<open>\<^verbatim>\<open>mgo.Dial\<close>: a session, or the error of the connection attempt.\<close>

definition Dial :: "'a Mongo \<Rightarrow> error option \<times> 'a Mongo" where
  "Dial db = roundTrip db"

text \<open>
  \<^verbatim>\<open>c.FindId(id).One(result)\<close> on the collection \<open>c\<close>: the document is written into
  \<^verbatim>\<open>result\<close>, which is left as it was when the query fails or finds nothing.
\<close>

definition FindIdOne ::
  "(string \<times> 'd) list \<Rightarrow> string \<Rightarrow> 'd \<Rightarrow> 'a Mongo \<Rightarrow> ('d \<times> error option) \<times> 'a Mongo" where
  "FindIdOne c docId result db =
     (case roundTrip db of
        (Some err, db') \<Rightarrow> ((result, Some err), db')
      | (None, db') \<Rightarrow>
          (case map_of c docId of
             None \<Rightarrow> ((result, Some ErrNotFound), db')
           | Some doc \<Rightarrow> ((doc, None), db')))"

text \<open>\<^verbatim>\<open>c.Find(query).All(&results)\<close>, given the documents that match the query.\<close>

definition FindAll :: "'d list \<Rightarrow> 'a Mongo \<Rightarrow> ('d list \<times> error option) \<times> 'a Mongo" where
  "FindAll matching db =
     (case roundTrip db of
        (Some err, db') \<Rightarrow> (([], Some err), db')
      | (None, db') \<Rightarrow> ((matching, None), db'))"

text \<open>\<^verbatim>\<open>c.UpsertId(id, doc)\<close>: insert or replace; the \<^verbatim>\<open>ChangeInfo\<close> is dropped by every caller.\<close>

definition UpsertId ::
  "(string \<times> 'd) list \<Rightarrow> string \<Rightarrow> 'd \<Rightarrow> 'a Mongo \<Rightarrow> ((string \<times> 'd) list \<times> error option) \<times> 'a Mongo" where
  "UpsertId c docId doc db =
     (case roundTrip db of
        (Some err, db') \<Rightarrow> ((c, Some err), db')
      | (None, db') \<Rightarrow> ((AList.update docId doc c, None), db'))"

text \<open>\<^verbatim>\<open>c.Insert(doc)\<close> of a document with the given \<^verbatim>\<open>_id\<close>: refused when the key exists.\<close>

definition Insert ::
  "(string \<times> 'd) list \<Rightarrow> string \<Rightarrow> 'd \<Rightarrow> 'a Mongo \<Rightarrow> ((string \<times> 'd) list \<times> error option) \<times> 'a Mongo" where
  "Insert c docId doc db =
     (case roundTrip db of
        (Some err, db') \<Rightarrow> ((c, Some err), db')
      | (None, db') \<Rightarrow>
          (case map_of c docId of
             Some _ \<Rightarrow> ((c, Some ErrDuplicateKey), db')
           | None \<Rightarrow> ((c @ [(docId, doc)], None), db')))"

text \<open>
  \<^verbatim>\<open>c.RemoveId(id)\<close>: in the safe mode of a dialled session the removal of a key that is
  not there returns \<^verbatim>\<open>mgo.ErrNotFound\<close>.
\<close>

definition RemoveId ::
  "(string \<times> 'd) list \<Rightarrow> string \<Rightarrow> 'a Mongo \<Rightarrow> ((string \<times> 'd) list \<times> error option) \<times> 'a Mongo" where
  "RemoveId c docId db =
     (case roundTrip db of
        (Some err, db') \<Rightarrow> ((c, Some err), db')
      | (None, db') \<Rightarrow>
          (case map_of c docId of
             None \<Rightarrow> ((c, Some ErrNotFound), db')
           | Some _ \<Rightarrow> ((AList.delete docId c, None), db')))"

text \<open>
  The collections the package opens with \<^verbatim>\<open>session.DB(da.databaseName).C(name)\<close>: a write
  to the collection \<^verbatim>\<open>name\<close> puts the changed collection back into the database.
\<close>

definition profiles_UpsertId ::
  "string \<Rightarrow> 'a Profile \<Rightarrow> 'a Mongo \<Rightarrow> error option \<times> 'a Mongo" where
  "profiles_UpsertId docId doc db =
     (case UpsertId (C_profiles db) docId doc db of
        ((c, err), db') \<Rightarrow> (err, db'\<lparr>C_profiles := c\<rparr>))"

definition profiles_RemoveId :: "string \<Rightarrow> 'a Mongo \<Rightarrow> error option \<times> 'a Mongo" where
  "profiles_RemoveId docId db =
     (case RemoveId (C_profiles db) docId db of
        ((c, err), db') \<Rightarrow> (err, db'\<lparr>C_profiles := c\<rparr>))"

definition skills_UpsertId ::
  "string \<Rightarrow> SkillTag \<Rightarrow> 'a Mongo \<Rightarrow> error option \<times> 'a Mongo" where
  "skills_UpsertId docId doc db =
     (case UpsertId (C_skills db) docId doc db of
        ((c, err), db') \<Rightarrow> (err, db'\<lparr>C_skills := c\<rparr>))"

definition skills_RemoveId :: "string \<Rightarrow> 'a Mongo \<Rightarrow> error option \<times> 'a Mongo" where
  "skills_RemoveId docId db =
     (case RemoveId (C_skills db) docId db of
        ((c, err), db') \<Rightarrow> (err, db'\<lparr>C_skills := c\<rparr>))"

definition configuration_Insert :: "Configuration \<Rightarrow> 'a Mongo \<Rightarrow> error option \<times> 'a Mongo" where
  "configuration_Insert doc db =
     (case Insert (C_configuration db) (ID doc) doc db of
        ((c, err), db') \<Rightarrow> (err, db'\<lparr>C_configuration := c\<rparr>))"

text \<open>\<^verbatim>\<open>c.DropCollection()\<close> on the configuration collection.\<close>

definition configuration_DropCollection :: "'a Mongo \<Rightarrow> error option \<times> 'a Mongo" where
  "configuration_DropCollection db =
     (case roundTrip db of
        (Some err, db') \<Rightarrow> (Some err, db')
      | (None, db') \<Rightarrow> (None, db'\<lparr>C_configuration := []\<rparr>))"

section \<open>The operations of MongoDataAccess\<close>

text \<open>
  A Go function that returns \<^verbatim>\<open>(value, error)\<close> returns the pair here, the error an
  \<^typ>\<open>error option\<close> (\<open>None\<close> is \<^verbatim>\<open>nil\<close>), a pointer result an option (\<open>None\<close> is the nil
  pointer), together with the database after the call. An operation that can panic returns
  an \<open>outcome\<close>.
\<close>

datatype 'r outcome = Panic | Return 'r

subsection \<open>CleanTag and getDomain\<close>

definition CleanTag :: "string \<Rightarrow> string" where
  "CleanTag tag = Replace (ToLower tag) (CHR '' '') (CHR ''-'') (- 1)"

text \<open>
  \<^verbatim>\<open>strings.ToLower(strings.Split(emailAddress, "@")[1])\<close>: the index panics when the
  address has no \<^verbatim>\<open>@\<close> (\<open>None\<close>).
\<close>

definition getDomain :: "string \<Rightarrow> string option" where
  "getDomain emailAddress =
     (let parts = Split emailAddress (CHR ''@'')
      in if 1 < length parts then Some (ToLower (parts ! 1)) else None)"

subsection \<open>GetProfile\<close>

definition GetProfile ::
  "string \<Rightarrow> ('a::zero) Mongo \<Rightarrow> ('a Profile option \<times> bool \<times> error option) \<times> 'a Mongo" where
  "GetProfile emailAddress db =
     (case Dial db of
        (Some err, db1) \<Rightarrow> ((None, False, Some err), db1)
      | (None, db1) \<Rightarrow>
          (let result = NewProfile;
               result = result\<lparr>Profile.EmailAddress := emailAddress\<rparr>
           in case FindIdOne (C_profiles db1) emailAddress result db1 of
                ((result, err), db2) \<Rightarrow>
                  if err = Some ErrNotFound then ((Some result, False, None), db2)
                  else ((Some result, True, None), db2)))"

subsection \<open>UpdateProfile\<close>

text \<open>
  The loop \<^verbatim>\<open>for _, skill := range update.Skills { skill.Skill = strings.ToLower(skill.Skill) }\<close>
  over a slice of struct values: \<^verbatim>\<open>range\<close> copies each element into the loop variable
  \<^verbatim>\<open>skill\<close>, the body assigns to a field of that copy, and no statement stores the copy
  back into the slice. The first argument holds the elements still to visit, the second
  the slice \<^verbatim>\<open>update.Skills\<close>.
\<close>

fun lowerSkillNames :: "Skill list \<Rightarrow> Skill list \<Rightarrow> Skill list" where
  "lowerSkillNames [] updateSkills = updateSkills"
| "lowerSkillNames (elem # rest) updateSkills =
     (let skill = elem;
          skill = skill\<lparr>Skill := ToLower (Skill skill)\<rparr>
      in lowerSkillNames rest updateSkills)"

text \<open>
  \<open>now\<close> is the reading of \<^verbatim>\<open>time.Now()\<close>. The operation dials, lets \<^verbatim>\<open>GetProfile\<close> dial
  and fetch, changes the fetched profile in memory and upserts it under its email address.
  \<^verbatim>\<open>getDomain\<close> panics after the fetch and before the upsert when the address has no \<^verbatim>\<open>@\<close>.
\<close>

definition UpdateProfile ::
  "Time \<Rightarrow> 'a ProfileUpdate \<Rightarrow> ('a::zero) Mongo \<Rightarrow>
     ('a Profile option \<times> error option) outcome \<times> 'a Mongo" where
  "UpdateProfile now update db =
     (case Dial db of
        (Some err, db1) \<Rightarrow> (Return (None, Some err), db1)
      | (None, db1) \<Rightarrow>
          (case GetProfile (ProfileUpdate.EmailAddress update) db1 of
             ((_, _, Some err), db2) \<Rightarrow> (Return (None, Some err), db2)
           | ((None, _, None), db2) \<Rightarrow> (Panic, db2)
           | ((Some profile, found, None), db2) \<Rightarrow>
               (let profile =
                      (if length (Profile.Skills profile) > 0
                       then (let sl = \<lparr>Date = LastUpdated profile,
                                       SkillLevel.Skills = Profile.Skills profile\<rparr>
                             in profile\<lparr>SkillsHistory := SkillsHistory profile @ [sl]\<rparr>)
                       else profile);
                    update = update\<lparr>ProfileUpdate.Skills :=
                               lowerSkillNames (ProfileUpdate.Skills update)
                                 (ProfileUpdate.Skills update)\<rparr>;
                    profile = profile\<lparr>Profile.Skills := ProfileUpdate.Skills update\<rparr>;
                    profile = profile\<lparr>Profile.Availability := ProfileUpdate.Availability update\<rparr>;
                    profile = profile\<lparr>Version := Version profile + 1\<rparr>;
                    profile = profile\<lparr>LastUpdated := time_Unix (Unix now) 0\<rparr>
                in case getDomain (ProfileUpdate.EmailAddress update) of
                     None \<Rightarrow> (Panic, db2)
                   | Some domain \<Rightarrow>
                       (let profile = profile\<lparr>Domain := domain\<rparr>
                        in case profiles_UpsertId (Profile.EmailAddress profile) profile db2 of
                             (Some err, db3) \<Rightarrow> (Return (None, Some err), db3)
                           | (None, db3) \<Rightarrow> (Return (Some profile, None), db3)))))"

subsection \<open>ListSkillTags and AddSkillTags\<close>

text \<open>
  The loop \<^verbatim>\<open>for idx, tag := range results { skillTags[idx] = tag.Name }\<close> over the slice
  made by \<^verbatim>\<open>make([]string, len(results), len(results))\<close>.
\<close>

fun copyNames :: "nat \<Rightarrow> SkillTag list \<Rightarrow> string list \<Rightarrow> string list" where
  "copyNames idx [] skillTags = skillTags"
| "copyNames idx (tag # rest) skillTags = copyNames (Suc idx) rest (skillTags[idx := Name tag])"

definition ListSkillTags :: "'a Mongo \<Rightarrow> (string list option \<times> error option) \<times> 'a Mongo" where
  "ListSkillTags db =
     (case Dial db of
        (Some err, db1) \<Rightarrow> ((None, Some err), db1)
      | (None, db1) \<Rightarrow>
          (case FindAll (map snd (C_skills db1)) db1 of
             ((results, Some err), db2) \<Rightarrow> ((None, None), db2)
           | ((results, None), db2) \<Rightarrow>
               (let skillTags = replicate (length results) []
                in ((Some (copyNames 0 results skillTags), None), db2))))"

text \<open>The loop of \<^verbatim>\<open>AddSkillTags\<close>: one upsert per tag, left at the first error.\<close>

fun addSkillTags :: "string list \<Rightarrow> 'a Mongo \<Rightarrow> error option \<times> 'a Mongo" where
  "addSkillTags [] db = (None, db)"
| "addSkillTags (tag # rest) db =
     (case skills_UpsertId tag \<lparr>Name = CleanTag tag\<rparr> db of
        (Some err, db') \<Rightarrow> (Some err, db')
      | (None, db') \<Rightarrow> addSkillTags rest db')"

definition AddSkillTags :: "string list \<Rightarrow> 'a Mongo \<Rightarrow> error option \<times> 'a Mongo" where
  "AddSkillTags tags db =
     (case Dial db of
        (Some err, db1) \<Rightarrow> (Some err, db1)
      | (None, db1) \<Rightarrow> addSkillTags tags db1)"

subsection \<open>DeleteProfile and DeleteSkillTags\<close>

definition DeleteProfile :: "string \<Rightarrow> 'a Mongo \<Rightarrow> (bool \<times> error option) \<times> 'a Mongo" where
  "DeleteProfile emailAddress db =
     (case Dial db of
        (Some err, db1) \<Rightarrow> ((False, Some err), db1)
      | (None, db1) \<Rightarrow>
          (case profiles_RemoveId emailAddress db1 of
             (Some err, db2) \<Rightarrow> ((False, Some err), db2)
           | (None, db2) \<Rightarrow> ((True, None), db2)))"

fun deleteSkillTags :: "string list \<Rightarrow> 'a Mongo \<Rightarrow> error option \<times> 'a Mongo" where
  "deleteSkillTags [] db = (None, db)"
| "deleteSkillTags (tag # rest) db =
     (case skills_RemoveId tag db of
        (err, db') \<Rightarrow>
          if err \<noteq> None \<and> err \<noteq> Some ErrNotFound then (err, db')
          else deleteSkillTags rest db')"

definition DeleteSkillTags :: "string list \<Rightarrow> 'a Mongo \<Rightarrow> error option \<times> 'a Mongo" where
  "DeleteSkillTags tags db =
     (case Dial db of
        (Some err, db1) \<Rightarrow> (Some err, db1)
      | (None, db1) \<Rightarrow> deleteSkillTags tags db1)"

subsection \<open>The configuration\<close>

definition getConfiguration :: "'a Mongo \<Rightarrow> (Configuration \<times> error option) \<times> 'a Mongo" where
  "getConfiguration db =
     (case Dial db of
        (Some err, db1) \<Rightarrow> ((zeroConfiguration, Some err), db1)
      | (None, db1) \<Rightarrow>
          (let configuration = NewConfiguration []
           in FindIdOne (C_configuration db1) ''configuration'' configuration db1))"

text \<open>\<open>key\<close> is the key that \<^verbatim>\<open>createSessionEncryptionKey()\<close> draws in this call.\<close>

definition attemptToCreateConfiguration :: "8 word list \<Rightarrow> 'a Mongo \<Rightarrow> error option \<times> 'a Mongo" where
  "attemptToCreateConfiguration key db =
     (case Dial db of
        (Some err, db1) \<Rightarrow> (Some err, db1)
      | (None, db1) \<Rightarrow>
          (let configuration = NewConfiguration key
           in configuration_Insert configuration db1))"

definition GetOrCreateConfiguration ::
  "8 word list \<Rightarrow> 'a Mongo \<Rightarrow> (Configuration \<times> error option) \<times> 'a Mongo" where
  "GetOrCreateConfiguration key db =
     (case getConfiguration db of
        ((configuration, err), db1) \<Rightarrow>
          if err = Some ErrNotFound
          then (case attemptToCreateConfiguration key db1 of
                  (_, db2) \<Rightarrow> getConfiguration db2)
          else ((configuration, err), db1))"

definition DeleteConfiguration :: "'a Mongo \<Rightarrow> error option \<times> 'a Mongo" where
  "DeleteConfiguration db =
     (case Dial db of
        (Some err, db1) \<Rightarrow> (Some err, db1)
      | (None, db1) \<Rightarrow> configuration_DropCollection db1)"

section \<open>Example data\<close>

text \<open>
  A database with no document and no failure to come; the profile of \<^verbatim>\<open>bob@x.com\<close> after a
  first update at second 100 and after a second update at second 200; a database that
  holds one profile; an update for \<^verbatim>\<open>bob@x.com\<close>.
\<close>

definition emptyMongo :: "nat Mongo" where
  "emptyMongo = \<lparr>C_profiles = [], C_skills = [], C_configuration = [], faults = []\<rparr>"

definition bob1 :: "nat Profile" where
  "bob1 = \<lparr>Profile.EmailAddress = ''bob@x.com'', Domain = ''x.com'',
            Profile.Skills = [\<lparr>Skill = ''go'', Level = 3\<rparr>], SkillsHistory = [],
            Profile.Availability = 0, Version = 1, LastUpdated = time_Unix 100 0\<rparr>"


definition mongoWith :: "nat Profile \<Rightarrow> string option list \<Rightarrow> nat Mongo" where
  "mongoWith p fs =
     \<lparr>C_profiles = [(Profile.EmailAddress p, p)], C_skills = [], C_configuration = [],
      faults = fs\<rparr>"

definition bobUpdate :: "Skill list \<Rightarrow> nat ProfileUpdate" where
  "bobUpdate ss = \<lparr>ProfileUpdate.EmailAddress = ''bob@x.com'', Skills = ss, Availability = 0\<rparr>"

text \<open>A database in which the third round trip to come fails.\<close>

definition insertFails :: "nat Mongo" where
  "insertFails = emptyMongo\<lparr>faults := [None, None, Some ''no server'']\<rparr>"

section \<open>Properties of CleanTag\<close>










section \<open>Properties of the document store\<close>

lemma roundTrip_collections:
  "roundTrip db = (e, db') \<Longrightarrow>
     C_profiles db' = C_profiles db \<and> C_skills db' = C_skills db
     \<and> C_configuration db' = C_configuration db \<and> faults db' = tl (faults db)"
  by (auto simp: roundTrip_def split: list.splits option.splits)

lemma roundTrip_error:
  "roundTrip db = (Some e, db') \<Longrightarrow> \<exists>msg. e = ErrStorage msg"
  by (auto simp: roundTrip_def split: list.splits option.splits)

lemma Dial_collections:
  "Dial db = (e, db') \<Longrightarrow>
     C_profiles db' = C_profiles db \<and> C_skills db' = C_skills db
     \<and> C_configuration db' = C_configuration db \<and> faults db' = tl (faults db)"
  by (simp add: Dial_def roundTrip_collections)

lemma Dial_error: "Dial db = (Some e, db') \<Longrightarrow> \<exists>msg. e = ErrStorage msg"
  by (simp add: Dial_def roundTrip_error)

lemma FindIdOne_cases:
  "FindIdOne c k r db = ((r', e), db') \<Longrightarrow>
     (e = Some ErrNotFound \<and> r' = r \<and> map_of c k = None)
     \<or> (\<exists>msg. e = Some (ErrStorage msg) \<and> r' = r)
     \<or> (e = None \<and> map_of c k = Some r')"
  by (auto simp: FindIdOne_def split: prod.splits option.splits dest: roundTrip_error)



section \<open>Properties of GetProfile\<close>

lemma GetProfile_not_found:
  "GetProfile emailAddress db = ((result, False, None), db') \<Longrightarrow>
     result = Some (NewProfile\<lparr>Profile.EmailAddress := emailAddress\<rparr>)
     \<and> map_of (C_profiles db) emailAddress = None"
  by (auto simp: GetProfile_def Let_def
      split: prod.splits option.splits if_splits dest!: FindIdOne_cases Dial_collections)




text \<open>
  C10: when \<^verbatim>\<open>GetProfile\<close> reports \<^verbatim>\<open>found = false\<close> with a nil error, the key is absent and
  the profile it returns is not nil: it is the value of \<^verbatim>\<open>NewProfile()\<close> with the email
  address set to the argument, every other field as \<^verbatim>\<open>NewProfile\<close> left it.
\<close>

theorem GetProfile_not_found_is_fresh_profile:
  assumes "GetProfile emailAddress db = ((result, False, None), db')"
  shows "result = Some (NewProfile\<lparr>Profile.EmailAddress := emailAddress\<rparr>)
       \<and> map_of (C_profiles db) emailAddress = None"
  using assms by (rule GetProfile_not_found)

theorem GetProfile_not_found_is_fresh_profile_witness:
  "GetProfile ''nobody@x.com'' emptyMongo =
     ((Some (NewProfile\<lparr>Profile.EmailAddress := ''nobody@x.com''\<rparr>), False, None), emptyMongo)
   \<and> map_of (C_profiles emptyMongo) ''nobody@x.com'' = None"
proof -
  have get: "GetProfile ''nobody@x.com'' emptyMongo =
     ((Some (NewProfile\<lparr>Profile.EmailAddress := ''nobody@x.com''\<rparr>), False, None), emptyMongo)"
    by code_simp
  from GetProfile_not_found_is_fresh_profile [OF get] get show ?thesis by blast
qed

text \<open>
  C3: \<^verbatim>\<open>GetProfile\<close> is to return a non-nil error for every failure of the lookup other than
  not-found. Here the dial goes through and the lookup of a stored profile fails with an
  i/o timeout: \<^verbatim>\<open>GetProfile\<close> answers \<^verbatim>\<open>found = true\<close> with a nil error and hands out the fresh
  profile it had prepared, not the stored one.
\<close>

theorem GetProfile_hides_failed_lookup:
  "GetProfile ''bob@x.com'' (mongoWith bob1 [None, Some ''i/o timeout'']) =
     ((Some (NewProfile\<lparr>Profile.EmailAddress := ''bob@x.com''\<rparr>), True, None), mongoWith bob1 [])"
  by code_simp

section \<open>Properties of UpdateProfile\<close>









text \<open>
  C4: the skill names of the stored and returned profile are to be the lower-cased names
  of the update. Here the first update of \<^verbatim>\<open>bob@x.com\<close> carries the skill \<^verbatim>\<open>Go\<close>: the
  profile returned and stored holds \<^verbatim>\<open>Go\<close>, not \<^verbatim>\<open>go\<close>.
\<close>

theorem UpdateProfile_keeps_upper_case_skill_name:
  "UpdateProfile \<lparr>sec = 100, nsec = 7\<rparr> (bobUpdate [\<lparr>Skill = ''Go'', Level = 3\<rparr>]) emptyMongo =
     (Return (Some (bob1\<lparr>Profile.Skills := [\<lparr>Skill = ''Go'', Level = 3\<rparr>]\<rparr>), None),
      mongoWith (bob1\<lparr>Profile.Skills := [\<lparr>Skill = ''Go'', Level = 3\<rparr>]\<rparr>) [])"
  by code_simp

section \<open>Properties of DeleteProfile\<close>

text \<open>
  C7: \<^verbatim>\<open>DeleteProfile\<close> of an address that is not stored is to return a nil error. Here
  nothing is stored and no round trip fails: \<^verbatim>\<open>DeleteProfile\<close> returns \<^verbatim>\<open>false\<close> together
  with \<^verbatim>\<open>mgo.ErrNotFound\<close>.
\<close>

theorem DeleteProfile_absent_key_returns_error:
  "DeleteProfile ''nobody@x.com'' emptyMongo = ((False, Some ErrNotFound), emptyMongo)"
  by code_simp

section \<open>Properties of ListSkillTags\<close>

text \<open>
  C8: a failure of the query of \<^verbatim>\<open>ListSkillTags\<close> is to reach the caller as a non-nil
  error. Here the dial goes through and the query fails: \<^verbatim>\<open>ListSkillTags\<close> returns a nil
  slice and a nil error.
\<close>

theorem ListSkillTags_swallows_query_failure:
  "ListSkillTags (emptyMongo\<lparr>C_skills := [(''Go Lang'', \<lparr>Name = ''go-lang''\<rparr>)],
                            faults := [None, Some ''cursor lost'']\<rparr>) =
     ((None, None), emptyMongo\<lparr>C_skills := [(''Go Lang'', \<lparr>Name = ''go-lang''\<rparr>)]\<rparr>)"
  by code_simp

section \<open>Properties of AddSkillTags\<close>

lemma skills_UpsertId_ok:
  "faults db = None # rest \<Longrightarrow>
   skills_UpsertId k doc db = (None, db\<lparr>C_skills := AList.update k doc (C_skills db), faults := rest\<rparr>)"
  by (simp add: skills_UpsertId_def UpsertId_def roundTrip_def)

lemma skills_UpsertId_no_faults:
  "faults db = [] \<Longrightarrow>
   skills_UpsertId k doc db = (None, db\<lparr>C_skills := AList.update k doc (C_skills db)\<rparr>)"
  by (simp add: skills_UpsertId_def UpsertId_def roundTrip_def)

lemma skills_UpsertId_fails:
  "faults db = Some msg # rest \<Longrightarrow>
   skills_UpsertId k doc db = (Some (ErrStorage msg), db\<lparr>faults := rest\<rparr>)"
  by (simp add: skills_UpsertId_def UpsertId_def roundTrip_def)

lemma addSkillTags_fails:
  "faults db = replicate n None @ Some msg # rest \<Longrightarrow> n < length tags \<Longrightarrow>
   addSkillTags tags db =
     (Some (ErrStorage msg),
      db\<lparr>C_skills := fold (\<lambda>tag. AList.update tag \<lparr>Name = CleanTag tag\<rparr>) (take n tags) (C_skills db),
         faults := rest\<rparr>)"
proof (induction tags arbitrary: n db)
  case Nil
  then show ?case by simp
next
  case (Cons tag tags)
  show ?case
  proof (cases n)
    case 0
    with Cons.prems show ?thesis
      by (simp add: skills_UpsertId_fails)
  next
    case (Suc m)
    with Cons.prems have f: "faults db = None # (replicate m None @ Some msg # rest)"
      by simp
    let ?db = "db\<lparr>C_skills := AList.update tag \<lparr>Name = CleanTag tag\<rparr> (C_skills db),
                  faults := replicate m None @ Some msg # rest\<rparr>"
    have "addSkillTags tags ?db =
      (Some (ErrStorage msg),
       ?db\<lparr>C_skills := fold (\<lambda>tag. AList.update tag \<lparr>Name = CleanTag tag\<rparr>) (take m tags) (C_skills ?db),
           faults := rest\<rparr>)"
      using Cons.prems Suc by (intro Cons.IH) simp_all
    then show ?thesis
      by (simp add: skills_UpsertId_ok [OF f] Suc)
  qed
qed

lemma addSkillTags_succeeds:
  "set (take (length tags) (faults db)) \<subseteq> {None} \<Longrightarrow>
   addSkillTags tags db =
     (None,
      db\<lparr>C_skills := fold (\<lambda>tag. AList.update tag \<lparr>Name = CleanTag tag\<rparr>) tags (C_skills db),
         faults := drop (length tags) (faults db)\<rparr>)"
proof (induction tags arbitrary: db)
  case Nil
  then show ?case by simp
next
  case (Cons tag tags)
  show ?case
  proof (cases "faults db")
    case Nil
    let ?db = "db\<lparr>C_skills := AList.update tag \<lparr>Name = CleanTag tag\<rparr> (C_skills db)\<rparr>"
    have "addSkillTags tags ?db =
     (None,
      ?db\<lparr>C_skills := fold (\<lambda>tag. AList.update tag \<lparr>Name = CleanTag tag\<rparr>) tags (C_skills ?db),
         faults := drop (length tags) (faults ?db)\<rparr>)"
      using Nil by (intro Cons.IH) simp
    then show ?thesis
      using Nil by (simp add: skills_UpsertId_no_faults)
  next
    case (Cons f rest)
    with Cons.prems have f: "faults db = None # rest" and r: "set (take (length tags) rest) \<subseteq> {None}"
      by simp_all
    let ?db = "db\<lparr>C_skills := AList.update tag \<lparr>Name = CleanTag tag\<rparr> (C_skills db), faults := rest\<rparr>"
    have "addSkillTags tags ?db =
     (None,
      ?db\<lparr>C_skills := fold (\<lambda>tag. AList.update tag \<lparr>Name = CleanTag tag\<rparr>) tags (C_skills ?db),
         faults := drop (length tags) (faults ?db)\<rparr>)"
      using r by (intro Cons.IH) simp
    then show ?thesis
      by (simp add: skills_UpsertId_ok [OF f] f)
  qed
qed

lemma map_of_fold_upsert:
  "map_of (fold (\<lambda>tag. AList.update tag (g tag)) tags c) k =
     (if k \<in> set tags then Some (g k) else map_of c k)"
  by (induction tags arbitrary: c) (auto simp: update_conv')

text \<open>
  C6: \<^verbatim>\<open>AddSkillTags\<close> upserts, in the order of its input, one document per tag, keyed by
  the tag as given and holding \<^verbatim>\<open>CleanTag\<close> of the tag. When the dial fails nothing is
  written. When the upsert of the tag at index \<open>n\<close> is the first to fail, its error is
  returned at once and the collection holds the upserts of the first \<open>n\<close> tags, no more and
  no less. When no upsert fails the result is nil and every tag is upserted. After the
  upserts of the tags \<open>ts\<close> a key among \<open>ts\<close> holds its cleaned tag and every other key
  holds what it held.
\<close>

theorem AddSkillTags_upserts_in_order_until_first_failure:
  "(faults db = Some msg # rest \<longrightarrow>
      AddSkillTags tags db = (Some (ErrStorage msg), db\<lparr>faults := rest\<rparr>))
   \<and> (faults db = None # replicate n None @ Some msg # rest \<and> n < length tags \<longrightarrow>
      AddSkillTags tags db =
        (Some (ErrStorage msg),
         db\<lparr>C_skills := fold (\<lambda>tag. AList.update tag \<lparr>Name = CleanTag tag\<rparr>) (take n tags)
                           (C_skills db),
            faults := rest\<rparr>))
   \<and> (set (take (Suc (length tags)) (faults db)) \<subseteq> {None} \<longrightarrow>
      AddSkillTags tags db =
        (None,
         db\<lparr>C_skills := fold (\<lambda>tag. AList.update tag \<lparr>Name = CleanTag tag\<rparr>) tags (C_skills db),
            faults := drop (Suc (length tags)) (faults db)\<rparr>))
   \<and> map_of (fold (\<lambda>tag. AList.update tag \<lparr>Name = CleanTag tag\<rparr>) ts c) k =
       (if k \<in> set ts then Some \<lparr>Name = CleanTag k\<rparr> else map_of c k)"
proof (intro conjI impI)
  assume "faults db = Some msg # rest"
  then show "AddSkillTags tags db = (Some (ErrStorage msg), db\<lparr>faults := rest\<rparr>)"
    by (simp add: AddSkillTags_def Dial_def roundTrip_def)
next
  assume a: "faults db = None # replicate n None @ Some msg # rest \<and> n < length tags"
  let ?db = "db\<lparr>faults := replicate n None @ Some msg # rest\<rparr>"
  from a have d: "Dial db = (None, ?db)"
    by (simp add: Dial_def roundTrip_def)
  have "addSkillTags tags ?db =
     (Some (ErrStorage msg),
      ?db\<lparr>C_skills := fold (\<lambda>tag. AList.update tag \<lparr>Name = CleanTag tag\<rparr>) (take n tags) (C_skills ?db),
         faults := rest\<rparr>)"
    using a by (intro addSkillTags_fails) simp_all
  then show "AddSkillTags tags db =
        (Some (ErrStorage msg),
         db\<lparr>C_skills := fold (\<lambda>tag. AList.update tag \<lparr>Name = CleanTag tag\<rparr>) (take n tags)
                           (C_skills db),
            faults := rest\<rparr>)"
    by (simp add: AddSkillTags_def d)
next
  assume a: "set (take (Suc (length tags)) (faults db)) \<subseteq> {None}"
  let ?db = "db\<lparr>faults := tl (faults db)\<rparr>"
  from a have d: "Dial db = (None, ?db)"
    by (cases "faults db") (auto simp: Dial_def roundTrip_def)
  from a have "set (take (length tags) (faults ?db)) \<subseteq> {None}"
    by (cases "faults db") auto
  then have "addSkillTags tags ?db =
     (None,
      ?db\<lparr>C_skills := fold (\<lambda>tag. AList.update tag \<lparr>Name = CleanTag tag\<rparr>) tags (C_skills ?db),
         faults := drop (length tags) (faults ?db)\<rparr>)"
    by (rule addSkillTags_succeeds)
  then show "AddSkillTags tags db =
        (None,
         db\<lparr>C_skills := fold (\<lambda>tag. AList.update tag \<lparr>Name = CleanTag tag\<rparr>) tags (C_skills db),
            faults := drop (Suc (length tags)) (faults db)\<rparr>)"
    by (simp add: AddSkillTags_def d drop_Suc)
next
  show "map_of (fold (\<lambda>tag. AList.update tag \<lparr>Name = CleanTag tag\<rparr>) ts c) k =
       (if k \<in> set ts then Some \<lparr>Name = CleanTag k\<rparr> else map_of c k)"
    by (rule map_of_fold_upsert)
qed

theorem AddSkillTags_upserts_in_order_until_first_failure_witness:
  "AddSkillTags [''Go Lang'', ''C Sharp'', ''Rust''] (emptyMongo\<lparr>faults := [None, None, None, Some ''write refused'']\<rparr>)
     = (Some (ErrStorage ''write refused''),
        emptyMongo\<lparr>C_skills := [(''Go Lang'', \<lparr>Name = ''go-lang''\<rparr>), (''C Sharp'', \<lparr>Name = ''c-sharp''\<rparr>)]\<rparr>)
   \<and> AddSkillTags [''Go Lang'', ''C Sharp'', ''Rust''] (emptyMongo\<lparr>faults := [Some ''no server'']\<rparr>)
     = (Some (ErrStorage ''no server''), emptyMongo)
   \<and> AddSkillTags [''Go Lang'', ''C Sharp''] emptyMongo
     = (None,
        emptyMongo\<lparr>C_skills := [(''Go Lang'', \<lparr>Name = ''go-lang''\<rparr>), (''C Sharp'', \<lparr>Name = ''c-sharp''\<rparr>)]\<rparr>)"
proof -
  let ?tags = "[''Go Lang'', ''C Sharp'', ''Rust'']"
  let ?db = "emptyMongo\<lparr>faults := [None, None, None, Some ''write refused'']\<rparr>"
  have clean: "CleanTag ''Go Lang'' = ''go-lang''" "CleanTag ''C Sharp'' = ''c-sharp''"
    by code_simp+
  have f: "faults ?db = None # replicate (Suc (Suc 0)) None @ Some ''write refused'' # []
      \<and> Suc (Suc 0) < length ?tags"
    by simp
  have one: "AddSkillTags ?tags ?db
     = (Some (ErrStorage ''write refused''),
        emptyMongo\<lparr>C_skills := [(''Go Lang'', \<lparr>Name = ''go-lang''\<rparr>), (''C Sharp'', \<lparr>Name = ''c-sharp''\<rparr>)]\<rparr>)"
    using AddSkillTags_upserts_in_order_until_first_failure
      [of ?db "''write refused''" "[]" ?tags "Suc (Suc 0)"] f
    by (simp add: emptyMongo_def clean)
  have two: "AddSkillTags ?tags (emptyMongo\<lparr>faults := [Some ''no server'']\<rparr>)
     = (Some (ErrStorage ''no server''), emptyMongo)"
    using AddSkillTags_upserts_in_order_until_first_failure
      [of "emptyMongo\<lparr>faults := [Some ''no server'']\<rparr>" "''no server''" "[]" ?tags]
    by (simp add: emptyMongo_def)
  have three: "AddSkillTags [''Go Lang'', ''C Sharp''] emptyMongo
     = (None,
        emptyMongo\<lparr>C_skills := [(''Go Lang'', \<lparr>Name = ''go-lang''\<rparr>), (''C Sharp'', \<lparr>Name = ''c-sharp''\<rparr>)]\<rparr>)"
    using AddSkillTags_upserts_in_order_until_first_failure
      [of emptyMongo _ _ "[''Go Lang'', ''C Sharp'']"]
    by (simp add: emptyMongo_def clean)
  from one two three show ?thesis by blast
qed

section \<open>Properties of GetOrCreateConfiguration\<close>

lemma getConfiguration_collections:
  "getConfiguration db = (r, db') \<Longrightarrow> C_configuration db' = C_configuration db"
  by (auto simp: getConfiguration_def Dial_def FindIdOne_def Let_def
      split: prod.splits option.splits dest!: roundTrip_collections)

lemma getConfiguration_cases:
  assumes "getConfiguration db = ((c, e), db')"
  shows "(\<exists>msg. e = Some (ErrStorage msg))
       \<or> (e = Some ErrNotFound \<and> map_of (C_configuration db) ''configuration'' = None)
       \<or> (e = None \<and> map_of (C_configuration db) ''configuration'' = Some c)"
proof -
  obtain e1 db1 where d: "Dial db = (e1, db1)"
    by (metis surj_pair)
  show ?thesis
  proof (cases e1)
    case (Some x)
    with assms d have "e = Some x"
      by (simp add: getConfiguration_def)
    with Dial_error d Some show ?thesis by blast
  next
    case None
    with assms d have
      "FindIdOne (C_configuration db1) ''configuration'' (NewConfiguration []) db1 = ((c, e), db')"
      by (simp add: getConfiguration_def)
    from FindIdOne_cases [OF this] Dial_collections [OF d] show ?thesis by auto
  qed
qed

lemma getConfiguration_ok:
  "getConfiguration db = ((c, None), db') \<Longrightarrow>
     map_of (C_configuration db) ''configuration'' = Some c"
  by (drule getConfiguration_cases) simp

lemma getConfiguration_not_found:
  "getConfiguration db = ((c, Some ErrNotFound), db') \<Longrightarrow>
     map_of (C_configuration db) ''configuration'' = None"
  by (drule getConfiguration_cases) simp

lemma GetOrCreateConfiguration_ok:
  assumes "GetOrCreateConfiguration key db = ((c, None), db')"
  shows "map_of (C_configuration db') ''configuration'' = Some c"
proof -
  obtain c0 e0 db0 where g: "getConfiguration db = ((c0, e0), db0)"
    by (metis surj_pair)
  show ?thesis
  proof (cases "e0 = Some ErrNotFound")
    case True
    obtain e1 db1 where a: "attemptToCreateConfiguration key db0 = (e1, db1)"
      by (metis surj_pair)
    from assms g True a have r: "getConfiguration db1 = ((c, None), db')"
      by (simp add: GetOrCreateConfiguration_def)
    from getConfiguration_ok [OF r] getConfiguration_collections [OF r]
    show ?thesis by simp
  next
    case False
    with assms g have r: "getConfiguration db = ((c, None), db')"
      by (simp add: GetOrCreateConfiguration_def)
    from getConfiguration_ok [OF r] getConfiguration_collections [OF r]
    show ?thesis by simp
  qed
qed

lemma GetOrCreateConfiguration_present:
  assumes "map_of (C_configuration db) ''configuration'' = Some c"
      and "GetOrCreateConfiguration key db = ((c', None), db')"
  shows "c' = c"
proof -
  obtain c0 e0 db0 where g: "getConfiguration db = ((c0, e0), db0)"
    by (metis surj_pair)
  have "e0 \<noteq> Some ErrNotFound"
    using getConfiguration_not_found [of db c0 db0] g assms(1) by auto
  with assms(2) g have "getConfiguration db = ((c', None), db')"
    by (simp add: GetOrCreateConfiguration_def)
  from getConfiguration_ok [OF this] assms(1) show ?thesis by simp
qed

lemma getConfiguration_no_faults:
  "faults db = [] \<Longrightarrow>
   getConfiguration db =
     (case map_of (C_configuration db) ''configuration'' of
        None \<Rightarrow> ((NewConfiguration [], Some ErrNotFound), db)
      | Some c \<Rightarrow> ((c, None), db))"
  by (simp add: getConfiguration_def Dial_def roundTrip_def FindIdOne_def Let_def
      split: option.splits)

lemma attemptToCreateConfiguration_no_faults:
  "faults db = [] \<Longrightarrow> map_of (C_configuration db) ''configuration'' = None \<Longrightarrow>
   attemptToCreateConfiguration key db =
     (None, db\<lparr>C_configuration := C_configuration db @ [(''configuration'', NewConfiguration key)]\<rparr>)"
  by (simp add: attemptToCreateConfiguration_def Dial_def roundTrip_def configuration_Insert_def
      Insert_def Let_def NewConfiguration_def)

lemma GetOrCreateConfiguration_no_faults:
  assumes "faults db = []"
  shows "GetOrCreateConfiguration key db =
     (case map_of (C_configuration db) ''configuration'' of
        None \<Rightarrow> ((NewConfiguration key, None),
                  db\<lparr>C_configuration := C_configuration db @ [(''configuration'', NewConfiguration key)]\<rparr>)
      | Some c \<Rightarrow> ((c, None), db))"
proof (cases "map_of (C_configuration db) ''configuration''")
  case None
  let ?db = "db\<lparr>C_configuration := C_configuration db @ [(''configuration'', NewConfiguration key)]\<rparr>"
  have "map_of (C_configuration ?db) ''configuration'' = Some (NewConfiguration key)"
    using None by (simp add: map_add_def)
  then have "getConfiguration ?db = ((NewConfiguration key, None), ?db)"
    using assms by (simp add: getConfiguration_no_faults)
  then show ?thesis
    using assms None
    by (simp add: GetOrCreateConfiguration_def getConfiguration_no_faults
        attemptToCreateConfiguration_no_faults)
next
  case (Some c)
  then show ?thesis
    using assms by (simp add: GetOrCreateConfiguration_def getConfiguration_no_faults)
qed

text \<open>
  C5: when the first fetch of \<^verbatim>\<open>GetOrCreateConfiguration\<close> answers not-found, the result is
  that of a second fetch made after \<^verbatim>\<open>attemptToCreateConfiguration\<close>, whose error is dropped.
  Two calls in sequence that both return a nil error return the same configuration, hence
  the same session-encryption key, whatever keys the two calls drew; and when no round trip
  fails, two calls in sequence both return a nil error and the same configuration.
\<close>

theorem GetOrCreateConfiguration_best_effort_create_same_key:
  "(getConfiguration db = ((c0, Some ErrNotFound), db0) \<longrightarrow>
      GetOrCreateConfiguration key db =
        getConfiguration (snd (attemptToCreateConfiguration key db0)))
   \<and> (GetOrCreateConfiguration key1 db = ((c1, None), db1)
        \<and> GetOrCreateConfiguration key2 db1 = ((c2, None), db2) \<longrightarrow>
      c2 = c1 \<and> SessionEncryptionKey c2 = SessionEncryptionKey c1)
   \<and> (faults db = [] \<longrightarrow>
      (\<exists>c db1. GetOrCreateConfiguration key1 db = ((c, None), db1)
          \<and> GetOrCreateConfiguration key2 db1 = ((c, None), db1)))"
proof -
  have refetch: "GetOrCreateConfiguration key db =
        getConfiguration (snd (attemptToCreateConfiguration key db0))"
    if "getConfiguration db = ((c0, Some ErrNotFound), db0)"
    using that by (simp add: GetOrCreateConfiguration_def split: prod.splits)
  have same: "c2 = c1 \<and> SessionEncryptionKey c2 = SessionEncryptionKey c1"
    if first: "GetOrCreateConfiguration key1 db = ((c1, None), db1)"
      and second: "GetOrCreateConfiguration key2 db1 = ((c2, None), db2)"
  proof -
    have "map_of (C_configuration db1) ''configuration'' = Some c1"
      using first by (rule GetOrCreateConfiguration_ok)
    then have "c2 = c1"
      using second by (rule GetOrCreateConfiguration_present)
    then show ?thesis by simp
  qed
  have twice: "\<exists>c db1. GetOrCreateConfiguration key1 db = ((c, None), db1)
          \<and> GetOrCreateConfiguration key2 db1 = ((c, None), db1)"
    if f: "faults db = []"
  proof (cases "map_of (C_configuration db) ''configuration''")
    case None
    let ?db = "db\<lparr>C_configuration := C_configuration db @ [(''configuration'', NewConfiguration key1)]\<rparr>"
    have 1: "GetOrCreateConfiguration key1 db = ((NewConfiguration key1, None), ?db)"
      using f None by (simp add: GetOrCreateConfiguration_no_faults)
    have "map_of (C_configuration ?db) ''configuration'' = Some (NewConfiguration key1)"
      using None by (simp add: map_add_def)
    then have 2: "GetOrCreateConfiguration key2 ?db = ((NewConfiguration key1, None), ?db)"
      using f by (simp add: GetOrCreateConfiguration_no_faults)
    from 1 2 show ?thesis by blast
  next
    case (Some c)
    then have "GetOrCreateConfiguration key1 db = ((c, None), db)"
      and "GetOrCreateConfiguration key2 db = ((c, None), db)"
      using f by (simp_all add: GetOrCreateConfiguration_no_faults)
    then show ?thesis by blast
  qed
  from refetch same twice show ?thesis by blast
qed

theorem GetOrCreateConfiguration_best_effort_create_same_key_witness:
  "getConfiguration insertFails = ((NewConfiguration [], Some ErrNotFound), emptyMongo\<lparr>faults := [Some ''no server'']\<rparr>)
   \<and> attemptToCreateConfiguration [1, 2] (emptyMongo\<lparr>faults := [Some ''no server'']\<rparr>)
       = (Some (ErrStorage ''no server''), emptyMongo)
   \<and> GetOrCreateConfiguration [1, 2] insertFails = ((NewConfiguration [], Some ErrNotFound), emptyMongo)
   \<and> GetOrCreateConfiguration [1, 2] emptyMongo =
       ((NewConfiguration [1, 2], None),
        emptyMongo\<lparr>C_configuration := [(''configuration'', NewConfiguration [1, 2])]\<rparr>)
   \<and> GetOrCreateConfiguration [3, 4]
         (emptyMongo\<lparr>C_configuration := [(''configuration'', NewConfiguration [1, 2])]\<rparr>) =
       ((NewConfiguration [1, 2], None),
        emptyMongo\<lparr>C_configuration := [(''configuration'', NewConfiguration [1, 2])]\<rparr>)
   \<and> SessionEncryptionKey (NewConfiguration [1, 2]) = [1, 2]"
proof -
  let ?db0 = "emptyMongo\<lparr>faults := [Some ''no server'']\<rparr>"
  let ?db1 = "emptyMongo\<lparr>C_configuration := [(''configuration'', NewConfiguration [1, 2])]\<rparr>"
  have g: "getConfiguration insertFails = ((NewConfiguration [], Some ErrNotFound), ?db0)"
    by code_simp
  have a: "attemptToCreateConfiguration [1, 2] ?db0 = (Some (ErrStorage ''no server''), emptyMongo)"
    by code_simp
  have r: "getConfiguration emptyMongo = ((NewConfiguration [], Some ErrNotFound), emptyMongo)"
    by code_simp
  from GetOrCreateConfiguration_best_effort_create_same_key
         [of insertFails "NewConfiguration []" ?db0 "[1, 2]"] g
  have ignored: "GetOrCreateConfiguration [1, 2] insertFails =
      ((NewConfiguration [], Some ErrNotFound), emptyMongo)"
    by (simp add: a r)
  have first: "GetOrCreateConfiguration [1, 2] emptyMongo = ((NewConfiguration [1, 2], None), ?db1)"
    by code_simp
  have second: "GetOrCreateConfiguration [3, 4] ?db1 = ((NewConfiguration [1, 2], None), ?db1)"
    by code_simp
  have k: "SessionEncryptionKey (NewConfiguration [1, 2]) = [1, 2]"
    by (simp add: NewConfiguration_def)
  from GetOrCreateConfiguration_best_effort_create_same_key
         [where db = emptyMongo and ?key1.0 = "[1, 2]" and ?c1.0 = "NewConfiguration [1, 2]"
            and ?db1.0 = ?db1 and ?key2.0 = "[3, 4]" and ?c2.0 = "NewConfiguration [1, 2]"
            and ?db2.0 = ?db1] first second
  have same: "SessionEncryptionKey (NewConfiguration [1, 2]) =
      SessionEncryptionKey (NewConfiguration [1, 2])"
    by blast
  from g a ignored first second k same show ?thesis by blast
qed

end
